theory Spec2Isabelle
  imports Complex_Main "HOL-Library.Log_Nat"
begin

section \<open>Session-level movement analysis (head\_movement\_analysis.py)\<close>

text \<open>
  The embedding follows class \<open>MovementAnalysis\<close>. A Python float is modelled as the
  \<^typ>\<open>real\<close> it denotes, and a float multiplication or division as the exact result
  rounded to the nearest double (\<open>fl\<close> below). Python ints are \<^typ>\<open>int\<close>, list lengths
  and \<open>list.count\<close> are \<^typ>\<open>nat\<close>. Exceptions are values of \<open>exn\<close>; a computation that
  may raise returns \<open>exn + 'a\<close>. The vision collaborators (face measurer, gaze estimators, hand detector)
  and the persistence layer are not part of the module; what they return for a frame is
  an input of the model.
\<close>

subsection \<open>Gesture scoring\<close>

text \<open>The five feedback statements returned by \<open>gesture_score\<close>. The first one holds a
  right single quotation mark, written here as its three UTF-8 bytes.\<close>

definition no_gestures_statement :: string where
  "no_gestures_statement =
     ''We didn'' @ [CHR 0xE2, CHR 0x80, CHR 0x99] @
     ''t see any gestures. Is this a missed opportunity? Consider using gestures to help you emphasize your key messages.''"

definition good_effort_statement :: string where
  "good_effort_statement = ''Good effort! You had some gestures, try using a few more.''"

definition awesome_statement :: string where
  "awesome_statement =
     ''Awesome, that was magnificent! You are using your gestures to add interest.''"

definition too_much_statement :: string where
  "too_much_statement =
     ''Phew! We can see you are using your hands. Maybe a little too much.''"

definition a_lot_statement :: string where
  "a_lot_statement = ''Ouch! There were a lot of gestures.''"

text \<open>The list \<open>[bar1, bar2, bar3, bar4]\<close> chosen from the number of samples.\<close>

definition bars :: "int \<Rightarrow> int \<times> int \<times> int \<times> int" where
  "bars n_samples =
     (if n_samples < 750 then (0, 100, 200, 300)
      else if 750 \<le> n_samples \<and> n_samples \<le> 1250 then (0, 200, 400, 600)
      else (0, 400, 800, 1600))"

definition gesture_score :: "int \<Rightarrow> int \<Rightarrow> string" where
  "gesture_score score n_samples =
     (case bars n_samples of (bar1, bar2, bar3, bar4) \<Rightarrow>
        if score = 0 then no_gestures_statement
        else if 1 \<le> score \<and> score \<le> bar2 then good_effort_statement
        else if bar2 + 1 \<le> score \<and> score \<le> bar3 then awesome_statement
        else if bar3 + 1 \<le> score \<and> score \<le> bar4 then too_much_statement
        else a_lot_statement)"

subsection \<open>Head orientation\<close>

definition head_movements :: "real \<Rightarrow> real \<Rightarrow> string" where
  "head_movements vertical_ratio horizontal_ratio =
     (if horizontal_ratio \<ge> 0.71 \<and> horizontal_ratio \<le> 1.45 then
        (if vertical_ratio \<ge> 1.33 \<and> vertical_ratio \<le> 2.10 then ''Center''
         else if vertical_ratio < 1.33 then ''Upper''
         else if vertical_ratio > 2.10 then ''Down''
         else '''')
      else if horizontal_ratio < 0.71 then ''Left''
      else if horizontal_ratio > 1.45 then ''Right''
      else '''')"

subsection \<open>Python numbers and exceptions\<close>

datatype exn = IndexError | UnboundLocalError | TypeError | Other string

text \<open>\<open>round(x)\<close> on a float: the nearest integer, a tie going to the even one.\<close>

definition py_round :: "real \<Rightarrow> int" where
  "py_round x =
     (let f = \<lfloor>x\<rfloor>; d = x - of_int f
      in if d < 1 / 2 then f
         else if d > 1 / 2 then f + 1
         else if even f then f else f + 1)"

text \<open>
  Doubles. A double other than 0 is a 53-bit integer significand times a power of two.
  For \<open>a > 0\<close>, \<open>exponent a\<close> is the integer \<open>e\<close> with \<open>2^e \<le> a < 2^(e+1)\<close>, \<open>ulp e\<close> is the
  spacing \<open>2^(e-52)\<close> of the doubles in that binade, and \<open>fl x\<close> is the double nearest to
  \<open>x\<close>, a tie going to the even significand. The exponent is not bounded: overflow and
  subnormal numbers, which counts, weights and face widths do not reach, are left out.
\<close>

definition exponent :: "real \<Rightarrow> int" where
  "exponent a = (if 1 \<le> a then bitlen \<lfloor>a\<rfloor> - 1 else - bitlen (\<lceil>1 / a\<rceil> - 1))"

definition ulp :: "int \<Rightarrow> real" where
  "ulp e = (if 52 \<le> e then 2 ^ nat (e - 52) else 1 / 2 ^ nat (52 - e))"

definition fl :: "real \<Rightarrow> real" where
  "fl x =
     (if x = 0 then 0
      else (let a = \<bar>x\<bar>; u = ulp (exponent a)
            in sgn x * (of_int (py_round (a / u)) * u)))"

text \<open>\<open>round(x, 1)\<close> on a double: the exact value of \<open>x\<close> is rounded to the nearest
  multiple of one tenth, a tie going to the even tenth, and the result is the double
  nearest to that decimal.\<close>

definition py_round1 :: "real \<Rightarrow> real" where
  "py_round1 x = fl (of_int (py_round (x * 10)) / 10)"

text \<open>\<open>int(x)\<close> on a float truncates toward zero.\<close>

definition py_int :: "real \<Rightarrow> int" where
  "py_int x = (if 0 \<le> x then \<lfloor>x\<rfloor> else \<lceil>x\<rceil>)"

subsection \<open>Per-frame analysis\<close>

text \<open>What a gaze estimator exposes after \<open>refresh\<close>: the pair of ratios that
  \<open>refresh\<close> returns and the three direction queries.\<close>

record gaze =
  ratios :: "real \<times> real"
  is_right :: bool
  is_left :: bool
  is_center :: bool

text \<open>
  One decoded frame, seen through the collaborators:
  \<^item> \<open>frame_light\<close>: the value of the variable after the resize block, the mean of the
    frame, or \<open>None\<close> when that block raised;
  \<^item> \<open>hands\<close>: the hand detector's outcome (\<open>Inr True\<close> when landmarks were found);
  \<^item> \<open>face_data\<close>, \<open>face_data_def\<close>: \<open>headTracking.face_data\<close> on the frame and on the
    reference image, as (face width, brightness);
  \<^item> \<open>refresh_selfie\<close>, \<open>refresh\<close>: the two gaze estimators on this frame.
\<close>

record frame =
  frame_light :: "real option"
  hands :: "exn + bool"
  face_data :: "exn + real \<times> real"
  face_data_def :: "exn + real \<times> real"
  refresh_selfie :: "exn + gaze"
  refresh :: "exn + gaze"

definition known_distance :: real where "known_distance = 43"
definition known_width :: real where "known_width = fl 12.3"
definition mindistance_selfie :: real where "mindistance_selfie = 20"
definition mindistance_fullbody :: real where "mindistance_fullbody = 69"
definition maxdistance_fullbody :: real where "maxdistance_fullbody = 140"

text \<open>The literal \<open>12.3\<close> is the double nearest to 12.3; the product and the quotient of
  each of the two helpers are rounded.\<close>

definition focal_length :: "real \<Rightarrow> real \<Rightarrow> real \<Rightarrow> real" where
  "focal_length measured_distance real_width width_in_rf_image =
     fl (fl (width_in_rf_image * measured_distance) / real_width)"

definition distance_finder :: "real \<Rightarrow> real \<Rightarrow> real \<Rightarrow> real" where
  "distance_finder focal real_face_width face_width_in_frame =
     fl (fl (real_face_width * focal) / face_width_in_frame)"

text \<open>
  The block that \<open>get_eyes_data\<close> runs for the selected regime, the same for both gaze
  estimators: refresh, classify the head, and, when the frame brightness is above 97, ask
  right, left, center in this order. Comparing \<open>None\<close> with 97 raises TypeError. The pair
  carried along is (\<open>text_eyes_movements\<close>, \<open>text_head_analysis\<close>).
\<close>

definition regime_block ::
  "exn + gaze \<Rightarrow> real option \<Rightarrow> string \<times> string \<Rightarrow> exn + string \<times> string" where
  "regime_block refreshed valuePix texts =
     (case refreshed of
        Inl e \<Rightarrow> Inl e
      | Inr g \<Rightarrow>
          (let text_head_analysis = head_movements (fst (ratios g)) (snd (ratios g))
           in case valuePix of
                None \<Rightarrow> Inl TypeError
              | Some p \<Rightarrow>
                  if p > 97 then
                    (if is_right g then Inr (''Right'', text_head_analysis)
                     else if is_left g then Inr (''Left'', text_head_analysis)
                     else if is_center g then Inr (''Center'', text_head_analysis)
                     else Inr (fst texts, text_head_analysis))
                  else Inr (fst texts, text_head_analysis)))"

text \<open>
  \<open>get_eyes_data\<close> returns (\<open>low_light_text\<close>, \<open>text_eyes_movements\<close>,
  \<open>text_head_analysis\<close>, \<open>text_yourfar\<close>). The variable \<open>distance\<close> is bound only when the
  face width is not 0; reading it afterwards raises UnboundLocalError otherwise. The
  divisor of \<open>focal_length\<close> is the constant 12.3 and \<open>distance_finder\<close> runs under the
  guard, so neither division can raise.
\<close>

definition get_eyes_data ::
  "frame \<Rightarrow> real option \<Rightarrow> exn + string \<times> string \<times> string \<times> string" where
  "get_eyes_data image' valuePix =
     (case face_data image' of
        Inl e \<Rightarrow> Inl e
      | Inr (face_width, face_values) \<Rightarrow>
     (case face_data_def image' of
        Inl e \<Rightarrow> Inl e
      | Inr (face_width_img, face_values_img) \<Rightarrow>
          (let low_light_text = (if face_values \<le> 65 then ''Low Light Found'' else '''');
               focal_length_found = focal_length known_distance known_width face_width_img
           in if face_width \<noteq> 0 then
                (let distance = distance_finder focal_length_found known_width face_width
                 in case (if mindistance_selfie < distance \<and> distance < mindistance_fullbody
                          then regime_block (refresh_selfie image') valuePix ('''', '''')
                          else Inr ('''', ''''))
                    of Inl e \<Rightarrow> Inl e
                     | Inr texts1 \<Rightarrow>
                    (case (if mindistance_fullbody \<le> distance \<and> distance \<le> maxdistance_fullbody
                           then regime_block (refresh image') valuePix texts1
                           else Inr texts1)
                     of Inl e \<Rightarrow> Inl e
                      | Inr (text_eyes_movements, text_head_analysis) \<Rightarrow>
                          Inr (low_light_text, text_eyes_movements, text_head_analysis,
                               if distance > maxdistance_fullbody then ''You Are Too Far''
                               else '''')))
              else Inl UnboundLocalError)))"

subsection \<open>The frame loop\<close>

text \<open>The four result lists and the frame counter.\<close>

record session =
  head :: "string list"
  eyes :: "string list"
  errors :: "string list"
  gestures :: "int list"
  count :: int

definition session_init :: session where
  "session_init = \<lparr>head = [], eyes = [], errors = [], gestures = [], count = 1\<rparr>"

text \<open>\<open>if text: xs.append(text)\<close>.\<close>

definition append_if :: "string list \<Rightarrow> string \<Rightarrow> string list" where
  "append_if xs text = (if text \<noteq> '''' then xs @ [text] else xs)"

text \<open>
  One pass of the loop body on a decoded frame. An exception of the hand detector is
  printed and the frame goes on; of the exceptions of \<open>get_eyes_data\<close> only IndexError is
  caught, every other one leaves the loop and the function.
\<close>

definition frame_step :: "session \<Rightarrow> frame \<Rightarrow> exn + session" where
  "frame_step s frame =
     (let s1 = (case hands frame of
                  Inr True \<Rightarrow> s\<lparr>gestures := gestures s @ [count s]\<rparr>
                | _ \<Rightarrow> s);
          s2 = s1\<lparr>count := count s1 + 1\<rparr>
      in case get_eyes_data frame (frame_light frame) of
           Inr (low_light_text, text_eyes_movements, text_head_results, your_toofar) \<Rightarrow>
             Inr (s2\<lparr>errors := append_if (append_if (errors s2) low_light_text) your_toofar,
                     eyes := append_if (eyes s2) text_eyes_movements,
                     head := append_if (head s2) text_head_results\<rparr>)
         | Inl IndexError \<Rightarrow> Inr (s2\<lparr>errors := errors s2 @ [''No Face Found'']\<rparr>)
         | Inl e \<Rightarrow> Inl e)"

text \<open>The loop over the frames that the video source yields before it ends.\<close>

fun frame_loop :: "session \<Rightarrow> frame list \<Rightarrow> exn + session" where
  "frame_loop s [] = Inr s"
| "frame_loop s (frame # video) =
     (case frame_step s frame of
        Inl e \<Rightarrow> Inl e
      | Inr s' \<Rightarrow> frame_loop s' video)"

subsection \<open>Aggregation\<close>

text \<open>An element of the list \<open>results\<close>, which mixes direction and error strings with
  the integer frame indices of the gestures.\<close>

datatype item = Str string | Num int

definition results :: "session \<Rightarrow> item list" where
  "results s = (map Str (head s) @ map Str (eyes s)) @ map Num (gestures s) @ map Str (errors s)"

text \<open>\<open>round(length / 2)\<close>; the quotient of an integer frame count by 2 is exact.\<close>

definition half_length :: "int \<Rightarrow> int" where
  "half_length length' = py_round (real_of_int length' / 2)"

text \<open>The loop over \<open>gestures\<close> with its two counters (\<open>count_1\<close>, \<open>count_2\<close>).\<close>

fun gesture_split :: "int \<Rightarrow> int \<Rightarrow> int list \<Rightarrow> nat \<times> nat \<Rightarrow> nat \<times> nat" where
  "gesture_split half length' [] (count_1, count_2) = (count_1, count_2)"
| "gesture_split half length' (i # is) (count_1, count_2) =
     gesture_split half length' is
       (if i \<le> half then count_1 + 1 else count_1,
        if half < i \<and> i < length' then count_2 + 1 else count_2)"

text \<open>The three independent \<open>if\<close> statements that set \<open>flag\<close>, in the order of the
  source; a later one that fires overwrites an earlier one. Halving a list length is exact
  in doubles, and Python compares an int with a float exactly.\<close>

definition set_flags :: "nat \<Rightarrow> nat \<Rightarrow> nat \<Rightarrow> nat \<Rightarrow> int" where
  "set_flags low_lightfound your_toofar no_facefound total' =
     (let flag = 0;
          flag = (if real low_lightfound > real total' * 0.50 then 1 else flag);
          flag = (if real your_toofar > real total' * 0.50 then 2 else flag);
          flag = (if real no_facefound > real total' * 0.50 then 3 else flag)
      in flag)"

definition abort_flag :: "session \<Rightarrow> int" where
  "abort_flag s =
     (let total' = length (results s);
          no_facefound = count_list (results s) (Str ''No Face Found'');
          low_lightfound = count_list (results s) (Str ''Low Light Found'');
          your_toofar = count_list (results s) (Str ''You Are Too Far'')
      in set_flags low_lightfound your_toofar no_facefound total')"

text \<open>\<open>int(round(n * ratio, 1))\<close> for a count \<open>n\<close> and a double \<open>ratio\<close>: the product is a
  double multiplication.\<close>

definition weighted :: "nat \<Rightarrow> real \<Rightarrow> int" where
  "weighted n ratio = py_int (py_round1 (fl (real n * ratio)))"

text \<open>The report dictionary, in insertion order; \<open>[]\<close> is the empty dictionary.\<close>

type_synonym report = "(string \<times> int) list"

text \<open>
  The part of \<open>head_and_eyes_analysis\<close> after the loop. \<open>feedback\<close> stands for the method
  of that name, whose outcome depends on the database alone: \<open>None\<close> when the report was
  saved, \<open>Some e\<close> when it raised.
\<close>

definition aggregate ::
  "session \<Rightarrow> int \<Rightarrow> real \<Rightarrow> real \<Rightarrow> (report \<Rightarrow> exn option) \<Rightarrow> exn + report \<times> int" where
  "aggregate s length' ratioX ratioY feedback =
     (let length_1 = length (gestures s);
          (count_1, count_2) = gesture_split (half_length length') length' (gestures s) (0, 0);
          statement1 = gesture_score (int count_1) (half_length length');
          statement2 = gesture_score (int count_2) (length' - half_length length');
          flag = abort_flag s
      in if flag \<notin> {1, 2, 3} then
           (let head_center = count_list (head s) ''Center'';
                head_up = count_list (head s) ''Upper'';
                head_down = count_list (head s) ''Down'';
                head_left = count_list (head s) ''Left'';
                head_right = count_list (head s) ''Right'';
                eyes_left = count_list (eyes s) ''Left'';
                eyes_right = count_list (eyes s) ''Right'';
                eyes_center = count_list (eyes s) ''Center'';
                weighted_avgCenter = weighted head_center ratioX + weighted eyes_center ratioY;
                weighted_avgLeft = weighted head_left ratioX + weighted eyes_left ratioY;
                weighted_avgright = weighted head_right ratioX + weighted eyes_right ratioY;
                dt = [(''center'', weighted_avgCenter),
                      (''up'', int head_up),
                      (''down'', int head_down),
                      (''left'', weighted_avgLeft),
                      (''right'', weighted_avgright),
                      (''total_gesture'', int length_1),
                      (''first_gesture'', int count_1),
                      (''second_gesture'', int count_2)]
            in case feedback dt of
                 Some e \<Rightarrow> Inl e
               | None \<Rightarrow> Inr (dt, flag))
         else Inr ([], flag))"

text \<open>The whole method: \<open>video\<close> is the list of frames read before the source ends,
  \<open>length'\<close> the frame count that the source reports.\<close>

definition head_and_eyes_analysis ::
  "frame list \<Rightarrow> int \<Rightarrow> real \<Rightarrow> real \<Rightarrow> (report \<Rightarrow> exn option) \<Rightarrow> exn + report \<times> int" where
  "head_and_eyes_analysis video length' ratioX ratioY feedback =
     (case frame_loop session_init video of
        Inl e \<Rightarrow> Inl e
      | Inr s \<Rightarrow> aggregate s length' ratioX ratioY feedback)"

text \<open>The outcome of \<open>feedback\<close> on a database that holds the subject: every report is
  saved.\<close>

definition saved :: "report \<Rightarrow> exn option" where
  "saved dt = None"

section \<open>Properties\<close>

lemma statements_distinct:
  "no_gestures_statement \<noteq> good_effort_statement"
  "no_gestures_statement \<noteq> awesome_statement"
  "no_gestures_statement \<noteq> too_much_statement"
  "no_gestures_statement \<noteq> a_lot_statement"
  "good_effort_statement \<noteq> awesome_statement"
  "good_effort_statement \<noteq> too_much_statement"
  "good_effort_statement \<noteq> a_lot_statement"
  "awesome_statement \<noteq> too_much_statement"
  "awesome_statement \<noteq> a_lot_statement"
  "too_much_statement \<noteq> a_lot_statement"
  by (simp_all add: no_gestures_statement_def good_effort_statement_def
      awesome_statement_def too_much_statement_def a_lot_statement_def)

subsection \<open>Rounding\<close>

text \<open>Half of an integer, rounded as \<open>round\<close> does: the tie of an odd count goes to the
  even neighbour.\<close>

lemma py_round_half: "py_round (real_of_int L / 2) = L div 2 + (if L mod 4 = 3 then 1 else 0)"
proof (cases "even L")
  case True
  then obtain k where k: "L = 2 * k" by (elim evenE)
  have "L mod 4 \<noteq> 3" using k by presburger
  then show ?thesis using k by (simp add: py_round_def)
next
  case False
  then obtain k where k: "L = 2 * k + 1" by (elim oddE)
  have r: "real_of_int L / 2 = of_int k + 1 / 2" using k by simp
  have f: "\<lfloor>real_of_int k + 1 / 2\<rfloor> = k" by linarith
  have p: "py_round (real_of_int k + 1 / 2) = (if even k then k else k + 1)"
    unfolding py_round_def Let_def f by simp
  have d: "L div 2 = k" using k by simp
  have m: "(L mod 4 = 3) = odd k" using k by presburger
  show ?thesis
    unfolding r p d m by simp
qed

lemma half_length_int: "half_length L = L div 2 + (if L mod 4 = 3 then 1 else 0)"
  unfolding half_length_def by (rule py_round_half)


lemma weighted_zero: "weighted 0 r = 0"
  by (simp add: weighted_def py_int_def py_round1_def py_round_def fl_def)

subsection \<open>Doubles at the default weights\<close>

text \<open>The literals \<open>0.95\<close> and \<open>0.05\<close> as doubles, and the two weighted terms of the example
  of ten head and four eye results; one head result at weight 0.95 gives 0.\<close>

lemma bitlen_values: "bitlen 1 = 1" "bitlen 4 = 3" "bitlen 9 = 4" "bitlen 19 = 5"
  by code_simp+

lemma fl_ratioX: "fl (95 / 100) = 4278419646001971 / 4503599627370496"
  by (simp add: fl_def exponent_def ulp_def py_round_def bitlen_values)

lemma fl_ratioY: "fl (5 / 100) = 3602879701896397 / 72057594037927936"
  by (simp add: fl_def exponent_def ulp_def py_round_def bitlen_values)

lemma weighted_10_ratioX: "weighted 10 (fl (95 / 100)) = 9"
proof -
  have p: "fl (real 10 * (4278419646001971 / 4503599627370496)) = 19 / 2"
    by (simp add: fl_def exponent_def ulp_def py_round_def bitlen_values)
  have r: "py_round1 (19 / 2) = 19 / 2"
    by (simp add: py_round1_def fl_def exponent_def ulp_def py_round_def bitlen_values)
  show ?thesis
    unfolding weighted_def fl_ratioX p r by (simp add: py_int_def)
qed

lemma weighted_4_ratioY: "weighted 4 (fl (5 / 100)) = 0"
proof -
  have p: "fl (real 4 * (3602879701896397 / 72057594037927936)) = 3602879701896397 / 18014398509481984"
    by (simp add: fl_def exponent_def ulp_def py_round_def bitlen_values)
  have r: "py_round1 (3602879701896397 / 18014398509481984) = 3602879701896397 / 18014398509481984"
    by (simp add: py_round1_def fl_def exponent_def ulp_def py_round_def bitlen_values)
  show ?thesis
    unfolding weighted_def fl_ratioY p r by (simp add: py_int_def)
qed

lemma weighted_1_ratioX: "weighted 1 (fl (95 / 100)) = 0"
proof -
  have p: "fl (real 1 * (4278419646001971 / 4503599627370496)) = 4278419646001971 / 4503599627370496"
    by (simp add: fl_def exponent_def ulp_def py_round_def bitlen_values)
  have r: "py_round1 (4278419646001971 / 4503599627370496) = 8106479329266893 / 9007199254740992"
    by (simp add: py_round1_def fl_def exponent_def ulp_def py_round_def bitlen_values)
  show ?thesis
    unfolding weighted_def fl_ratioX p r by (simp add: py_int_def)
qed

lemma py_round_examples: "py_round (fl (10 * fl (95 / 100))) = 10" "py_round (fl (4 * fl (5 / 100))) = 0"
proof -
  have p: "fl (10 * (4278419646001971 / 4503599627370496)) = 19 / 2"
    by (simp add: fl_def exponent_def ulp_def py_round_def bitlen_values)
  have q: "fl (4 * (3602879701896397 / 72057594037927936)) = 3602879701896397 / 18014398509481984"
    by (simp add: fl_def exponent_def ulp_def py_round_def bitlen_values)
  show "py_round (fl (10 * fl (95 / 100))) = 10"
    unfolding fl_ratioX p by (simp add: py_round_def)
  show "py_round (fl (4 * fl (5 / 100))) = 0"
    unfolding fl_ratioY q by (simp add: py_round_def)
qed

subsection \<open>Doubles in the distance estimate\<close>

text \<open>With a reference face 20 pixels wide, a face 43 pixels wide is at 20 cm in exact
  arithmetic; the doubles give 20.000000000000004, above the selfie bound.\<close>

lemma bitlen_values2: "bitlen 12 = 4" "bitlen 20 = 5" "bitlen 69 = 7" "bitlen 860 = 10"
  by code_simp+

lemma known_width_double: "known_width = 3462142213541069 / 281474976710656"
  by (simp add: known_width_def fl_def exponent_def ulp_def py_round_def bitlen_values2)

lemma focal_length_20: "focal_length known_distance known_width 20 = 4920091056324475 / 70368744177664"
  unfolding known_width_double
  by (simp add: focal_length_def known_distance_def fl_def exponent_def ulp_def py_round_def bitlen_values2)

lemma distance_at_selfie_bound:
  "distance_finder (focal_length known_distance known_width 20) known_width 43 = 5629499534213121 / 281474976710656"
  "mindistance_selfie < distance_finder (focal_length known_distance known_width 20) known_width 43"
proof -
  have p: "fl ((3462142213541069 / 281474976710656) * (4920091056324475 / 70368744177664)) = 7564639999098881 / 8796093022208"
    by (simp add: fl_def exponent_def ulp_def py_round_def bitlen_values2)
  have d: "fl ((7564639999098881 / 8796093022208) / 43) = 5629499534213121 / 281474976710656"
    by (simp add: fl_def exponent_def ulp_def py_round_def bitlen_values2)
  show 1: "distance_finder (focal_length known_distance known_width 20) known_width 43 = 5629499534213121 / 281474976710656"
    unfolding focal_length_20 unfolding known_width_double distance_finder_def p d ..
  show "mindistance_selfie < distance_finder (focal_length known_distance known_width 20) known_width 43"
    unfolding 1 by (simp add: mindistance_selfie_def)
qed

subsection \<open>Counting and the loops\<close>

lemma count_list_replicate: "count_list (replicate n x) y = (if x = y then n else 0)"
  by (induction n) auto


lemma gesture_split_filter:
  "gesture_split h L gs (a, b) =
     (a + length (filter (\<lambda>i. i \<le> h) gs), b + length (filter (\<lambda>i. h < i \<and> i < L) gs))"
  by (induction gs arbitrary: a b) simp_all

lemma set_flags_range: "set_flags a b c t \<in> {0, 1, 2, 3}"
  by (simp add: set_flags_def)

lemma abort_flag_range: "abort_flag s \<in> {0, 1, 2, 3}"
  unfolding abort_flag_def Let_def by (rule set_flags_range)

lemma aggregate_cases:
  assumes "aggregate s L rx ry fb = Inr (dt, flag)"
  shows "(flag \<in> {1, 2, 3} \<and> dt = []) \<or> (flag = 0 \<and> dt \<noteq> [])"
  using assms abort_flag_range [of s]
  by (auto simp add: aggregate_def Let_def split: prod.splits option.splits if_splits)

text \<open>The frame indices in \<open>gestures\<close> are positive: the counter starts at 1 and every
  pass adds 1.\<close>

lemma frame_step_gestures:
  assumes "frame_step s fr = Inr s'"
  shows "count s' = count s + 1 \<and> (gestures s' = gestures s \<or> gestures s' = gestures s @ [count s])"
  using assms
  by (auto simp add: frame_step_def Let_def split: sum.splits bool.splits exn.splits prod.splits)

lemma frame_loop_gestures_positive:
  assumes "frame_loop s video = Inr s'" and "1 \<le> count s" and "\<forall>i \<in> set (gestures s). 1 \<le> i"
  shows "\<forall>i \<in> set (gestures s'). 1 \<le> i"
  using assms
proof (induction video arbitrary: s)
  case Nil
  then show ?case by simp
next
  case (Cons fr video)
  from Cons.prems(1) obtain s1 where s1: "frame_step s fr = Inr s1" and l: "frame_loop s1 video = Inr s'"
    by (auto split: sum.splits)
  from frame_step_gestures [OF s1] Cons.prems(2,3)
  have "1 \<le> count s1" and "\<forall>i \<in> set (gestures s1). 1 \<le> i" by auto
  with Cons.IH [OF l] show ?case by blast
qed

lemma get_eyes_data_zero_width:
  "get_eyes_data (fr\<lparr>face_data := Inr (0, v), face_data_def := Inr r\<rparr>) p = Inl UnboundLocalError"
  by (simp add: get_eyes_data_def split: prod.splits)














subsection \<open>Abort flag\<close>





text \<open>
  Claim C2. Whenever \<open>head_and_eyes_analysis\<close> returns with an abort flag (1, 2 or 3), the
  returned report is the empty dictionary; a non-empty report is returned only with
  flag 0.
\<close>

theorem report_empty_iff_abort:
  assumes "head_and_eyes_analysis video L ratioX ratioY fb = Inr (dt, flag)"
  shows "(dt = [] \<longleftrightarrow> flag \<in> {1, 2, 3}) \<and> (dt \<noteq> [] \<longleftrightarrow> flag = 0)"
proof -
  from assms obtain s where "aggregate s L ratioX ratioY fb = Inr (dt, flag)"
    by (auto simp add: head_and_eyes_analysis_def split: sum.splits)
  from aggregate_cases [OF this] show ?thesis by auto
qed

theorem report_empty_iff_abort_witness:
  "head_and_eyes_analysis
     [\<lparr>frame_light = Some 120, hands = Inr False, face_data = Inl IndexError,
       face_data_def = Inr (100, 110), refresh_selfie = Inl IndexError, refresh = Inl IndexError\<rparr>]
     1 0.95 0.05 saved = Inr ([], 3)
   \<and> (([] :: report) = [] \<longleftrightarrow> (3 :: int) \<in> {1, 2, 3})"
proof -
  have h: "head_and_eyes_analysis
     [\<lparr>frame_light = Some 120, hands = Inr False, face_data = Inl IndexError,
       face_data_def = Inr (100, 110), refresh_selfie = Inl IndexError, refresh = Inl IndexError\<rparr>]
     1 0.95 0.05 saved = Inr ([], 3)"
    by (simp add: head_and_eyes_analysis_def session_init_def frame_step_def get_eyes_data_def
        aggregate_def abort_flag_def results_def set_flags_def half_length_int)
  from report_empty_iff_abort [OF h] h show ?thesis by simp
qed

subsection \<open>Weighted composites\<close>

text \<open>
  Claim C4, as amended. For every session that returns without an abort flag, the
  composite of each of Center, Left and Right is
  \<open>int(round(head_count * ratioX, 1)) + int(round(eye_count * ratioY, 1))\<close>: each double
  product is rounded to one decimal and then truncated toward zero, not rounded to the
  nearest integer. With ten Center head results, four Center eye results and the weights
  0.95 and 0.05 the Center composite is 9.
\<close>

theorem weighted_composite_truncated:
  assumes "aggregate s L ratioX ratioY fb = Inr (dt, flag)" and "flag \<notin> {1, 2, 3}"
      and "(key, direction) \<in> {(''center'', ''Center''), (''left'', ''Left''), (''right'', ''Right'')}"
  shows "map_of dt key = Some (
      py_int (py_round1 (fl (real (count_list (head s) direction) * ratioX)))
    + py_int (py_round1 (fl (real (count_list (eyes s) direction) * ratioY))))"
proof -
  from assms(1,2) have dt: "dt =
     [(''center'', weighted (count_list (head s) ''Center'') ratioX + weighted (count_list (eyes s) ''Center'') ratioY),
      (''up'', int (count_list (head s) ''Upper'')),
      (''down'', int (count_list (head s) ''Down'')),
      (''left'', weighted (count_list (head s) ''Left'') ratioX + weighted (count_list (eyes s) ''Left'') ratioY),
      (''right'', weighted (count_list (head s) ''Right'') ratioX + weighted (count_list (eyes s) ''Right'') ratioY),
      (''total_gesture'', int (length (gestures s))),
      (''first_gesture'', int (fst (gesture_split (half_length L) L (gestures s) (0, 0)))),
      (''second_gesture'', int (snd (gesture_split (half_length L) L (gestures s) (0, 0))))]"
    by (auto simp add: aggregate_def Let_def split: if_splits option.splits prod.splits)
  have "map_of dt key = Some (weighted (count_list (head s) direction) ratioX
                              + weighted (count_list (eyes s) direction) ratioY)"
    using assms(3) unfolding dt by auto
  then show ?thesis unfolding weighted_def .
qed


lemma example_report:
  "aggregate \<lparr>head = replicate 10 ''Center'', eyes = replicate 4 ''Center'', errors = [],
       gestures = [], count = 11\<rparr> 10 (fl 0.95) (fl 0.05) saved
     = Inr ([(''center'', 9), (''up'', 0), (''down'', 0), (''left'', 0), (''right'', 0),
             (''total_gesture'', 0), (''first_gesture'', 0), (''second_gesture'', 0)], 0)"
  using weighted_10_ratioX weighted_4_ratioY
  by (simp add: aggregate_def abort_flag_def results_def set_flags_def count_list_replicate
      saved_def weighted_zero)

theorem weighted_composite_truncated_witness:
  "aggregate \<lparr>head = replicate 10 ''Center'', eyes = replicate 4 ''Center'', errors = [],
       gestures = [], count = 11\<rparr> 10 (fl 0.95) (fl 0.05) saved
     = Inr ([(''center'', 9), (''up'', 0), (''down'', 0), (''left'', 0), (''right'', 0),
             (''total_gesture'', 0), (''first_gesture'', 0), (''second_gesture'', 0)], 0)
   \<and> (0::int) \<notin> {1, 2, 3}
   \<and> (''center'', ''Center'') \<in> {(''center'', ''Center''), (''left'', ''Left''), (''right'', ''Right'')}
   \<and> py_int (py_round1 (fl (real 10 * fl 0.95))) + py_int (py_round1 (fl (real 4 * fl 0.05))) = 9"
proof -
  note h = example_report
  have f: "(0::int) \<notin> {1, 2, 3}" by simp
  have k: "(''center'', ''Center'') \<in> {(''center'', ''Center''), (''left'', ''Left''), (''right'', ''Right'')}"
    by simp
  from weighted_composite_truncated [OF h f k] h f k show ?thesis
    by (simp add: count_list_replicate)
qed


text \<open>
  The claim as stated fails on its own example: the report holds center = 9, whereas
  \<open>round(10 * 0.95) + round(4 * 0.05)\<close> is 10.
\<close>

theorem weighted_center_counterexample:
  "aggregate \<lparr>head = replicate 10 ''Center'', eyes = replicate 4 ''Center'', errors = [],
       gestures = [], count = 11\<rparr> 10 (fl 0.95) (fl 0.05) saved
     = Inr ([(''center'', 9), (''up'', 0), (''down'', 0), (''left'', 0), (''right'', 0),
             (''total_gesture'', 0), (''first_gesture'', 0), (''second_gesture'', 0)], 0)
   \<and> py_round (fl (10 * fl 0.95)) + py_round (fl (4 * fl 0.05)) = 10
   \<and> (9::int) \<noteq> py_round (fl (10 * fl 0.95)) + py_round (fl (4 * fl 0.05))"
  using example_report py_round_examples by simp
subsection \<open>Empty video\<close>

text \<open>
  Claim C5, as amended. For a video source that yields no frame, whatever frame count it
  reports and whatever the weights, \<open>head_and_eyes_analysis\<close> takes the weighted-score
  path and, provided saving the report does not raise, returns the report whose eight
  entries are all 0 together with flag 0.
\<close>

theorem empty_video_report:
  assumes "fb [(''center'', 0), (''up'', 0), (''down'', 0), (''left'', 0), (''right'', 0),
     (''total_gesture'', 0), (''first_gesture'', 0), (''second_gesture'', 0)] = None"
  shows "head_and_eyes_analysis [] L ratioX ratioY fb =
    Inr ([(''center'', 0), (''up'', 0), (''down'', 0), (''left'', 0), (''right'', 0),
     (''total_gesture'', 0), (''first_gesture'', 0), (''second_gesture'', 0)], 0)"
  using assms
  by (simp add: head_and_eyes_analysis_def aggregate_def abort_flag_def results_def set_flags_def
      session_init_def weighted_zero)

theorem empty_video_report_witness:
  "saved [(''center'', 0), (''up'', 0), (''down'', 0), (''left'', 0), (''right'', 0),
     (''total_gesture'', 0), (''first_gesture'', 0), (''second_gesture'', 0)] = None
   \<and> head_and_eyes_analysis [] 0 0.95 0.05 saved =
    Inr ([(''center'', 0), (''up'', 0), (''down'', 0), (''left'', 0), (''right'', 0),
     (''total_gesture'', 0), (''first_gesture'', 0), (''second_gesture'', 0)], 0)"
proof -
  have h: "saved [(''center'', 0), (''up'', 0), (''down'', 0), (''left'', 0), (''right'', 0),
     (''total_gesture'', 0), (''first_gesture'', 0), (''second_gesture'', 0)] = None"
    by (simp add: saved_def)
  from empty_video_report [where fb = saved and L = 0 and ratioX = "0.95" and ratioY = "0.05", OF h] h
  show ?thesis by simp
qed

text \<open>The claim as stated expects the empty dictionary; the report returned for the empty
  video is not empty.\<close>

theorem empty_video_counterexample:
  "head_and_eyes_analysis [] 0 0.95 0.05 saved \<noteq> Inr ([], 0)"
  by (simp add: head_and_eyes_analysis_def aggregate_def abort_flag_def results_def set_flags_def
      session_init_def weighted_zero saved_def)

subsection \<open>Face width 0\<close>

text \<open>
  Claim C6 expects that a frame whose measured face width is 0 degrades to a
  face-not-found condition and that no exception leaves \<open>head_and_eyes_analysis\<close>. The
  code does skip the distance computation and both gaze estimators, but then reads the
  unbound \<open>distance\<close>: whatever the rest of the frame, the rest of the video, the
  reported frame count, the weights and the database are, the method ends with
  UnboundLocalError, which the loop's \<open>except IndexError\<close> does not catch.
\<close>

theorem zero_face_width_raises:
  "head_and_eyes_analysis
     (fr\<lparr>face_data := Inr (0, face_values), face_data_def := Inr ref\<rparr> # video) L ratioX ratioY fb
     = Inl UnboundLocalError"
  by (simp add: head_and_eyes_analysis_def frame_step_def get_eyes_data_zero_width Let_def)

subsection \<open>Gesture halves\<close>



text \<open>
  Claim C10. In every report of the non-abort path, first\_gesture + second\_gesture is
  at most total\_gesture, and the difference is the number of gesture frame indices that
  are above the first-half bound and not below the reported frame count; it is positive,
  for instance, when three frames with a hand were decoded and the reported frame count
  is 2.
\<close>

theorem gesture_halves_accounting:
  assumes "aggregate s L ratioX ratioY fb = Inr (dt, flag)" and "dt \<noteq> []"
  shows "\<exists>a b t. map_of dt ''first_gesture'' = Some a \<and> map_of dt ''second_gesture'' = Some b
           \<and> map_of dt ''total_gesture'' = Some t \<and> a + b \<le> t
           \<and> t = a + b + int (length (filter (\<lambda>i. half_length L < i \<and> L \<le> i) (gestures s)))"
proof -
  have len: "length (filter (\<lambda>i. i \<le> h) gs) + length (filter (\<lambda>i. h < i \<and> i < L) gs)
          + length (filter (\<lambda>i. h < i \<and> L \<le> i) gs) = length gs" for h and gs :: "int list"
    by (induction gs) auto
  from assms show ?thesis
    using len [of "half_length L" "gestures s"]
    by (auto simp add: aggregate_def Let_def gesture_split_filter split: if_splits option.splits)
qed

theorem gesture_halves_accounting_witness:
  "aggregate \<lparr>head = [], eyes = [], errors = [], gestures = [1, 2, 3], count = 4\<rparr> 2 0.95 0.05 saved
     = Inr ([(''center'', 0), (''up'', 0), (''down'', 0), (''left'', 0), (''right'', 0),
             (''total_gesture'', 3), (''first_gesture'', 1), (''second_gesture'', 0)], 0)
   \<and> (\<exists>a b t. map_of [(''center'', 0), (''up'', 0), (''down'', 0), (''left'', 0), (''right'', 0),
             (''total_gesture'', 3), (''first_gesture'', 1), (''second_gesture'', 0)] ''first_gesture'' = Some a
         \<and> map_of [(''center'', 0), (''up'', 0), (''down'', 0), (''left'', 0), (''right'', 0),
             (''total_gesture'', 3), (''first_gesture'', 1), (''second_gesture'', 0)] ''second_gesture'' = Some b
         \<and> map_of [(''center'', 0), (''up'', 0), (''down'', 0), (''left'', 0), (''right'', 0),
             (''total_gesture'', 3), (''first_gesture'', 1), (''second_gesture'', 0)] ''total_gesture'' = Some t
         \<and> a + b < (t :: int))"
proof -
  have h: "aggregate \<lparr>head = [], eyes = [], errors = [], gestures = [1, 2, 3], count = 4\<rparr> 2 0.95 0.05 saved
     = Inr ([(''center'', 0), (''up'', 0), (''down'', 0), (''left'', 0), (''right'', 0),
             (''total_gesture'', 3), (''first_gesture'', 1), (''second_gesture'', 0)], 0)"
    by (simp add: aggregate_def abort_flag_def results_def set_flags_def half_length_int weighted_zero saved_def)
  have n: "[(''center'', 0 :: int), (''up'', 0), (''down'', 0), (''left'', 0), (''right'', 0),
             (''total_gesture'', 3), (''first_gesture'', 1), (''second_gesture'', 0)] \<noteq> []" by simp
  from gesture_halves_accounting [OF h n] h show ?thesis
    by (simp add: half_length_int)
qed

subsection \<open>Head orientation classifier\<close>


subsection \<open>Gesture score buckets\<close>

text \<open>
  Claim C7. \<open>gesture_score\<close> is a function of the count and the number of samples. With
  buckets [b0, b1, b2, b3] equal to [0, 100, 200, 300] below 750 samples, to
  [0, 200, 400, 600] from 750 to 1250 samples and to [0, 400, 800, 1600] above, a gesture
  count (a non-negative integer) gets the no-gestures statement exactly when it is 0, the
  good-effort statement exactly from 1 to b1, the awesome statement exactly from b1 + 1
  to b2, the too-much statement exactly from b2 + 1 to b3 and the a-lot statement exactly
  above b3.
\<close>

theorem gesture_score_buckets:
  fixes score n_samples :: int
  assumes "0 \<le> score"
  shows "case (if n_samples < 750 then (0, 100, 200, 300)
               else if 750 \<le> n_samples \<and> n_samples \<le> 1250 then (0, 200, 400, 600)
               else (0, 400, 800, 1600)) of
           (b0 :: int, b1 :: int, b2 :: int, b3 :: int) \<Rightarrow>
             (gesture_score score n_samples = no_gestures_statement \<longleftrightarrow> score = 0)
           \<and> (gesture_score score n_samples = good_effort_statement \<longleftrightarrow> 1 \<le> score \<and> score \<le> b1)
           \<and> (gesture_score score n_samples = awesome_statement \<longleftrightarrow> b1 + 1 \<le> score \<and> score \<le> b2)
           \<and> (gesture_score score n_samples = too_much_statement \<longleftrightarrow> b2 + 1 \<le> score \<and> score \<le> b3)
           \<and> (gesture_score score n_samples = a_lot_statement \<longleftrightarrow> score > b3)"
  using assms statements_distinct statements_distinct [symmetric]
  by (auto simp add: gesture_score_def bars_def)

theorem gesture_score_buckets_witness:
  "(0::int) \<le> 250
   \<and> gesture_score 250 1000 = awesome_statement"
  using gesture_score_buckets [of 250 1000] by simp

text \<open>
  Claim C8, as amended. For count 150 and 500 samples the buckets are [0, 100, 200, 300]
  and the count lies in 101..200, so \<open>gesture_score\<close> returns the awesome statement.
\<close>

theorem gesture_score_150_500_awesome:
  "gesture_score 150 500 = awesome_statement"
  by (simp add: gesture_score_def bars_def)

text \<open>The claim as stated expects the good-effort statement, which this bucket gives to
  the counts 1..100 only.\<close>

theorem gesture_score_150_500_not_good_effort:
  "gesture_score 150 500 \<noteq> good_effort_statement"
  using statements_distinct [symmetric]
  by (simp add: gesture_score_def bars_def)

end
